theory Spec2Isabelle
  imports Main
begin

section \<open>Python strings\<close>

text \<open>
  A Python \<open>str\<close> is a sequence of Unicode code points, and \<open>len\<close> counts code points.
  A string is therefore a list of code points (natural numbers); \<open>str\<close> turns an ASCII
  literal into such a list.
\<close>

type_synonym pystr = "nat list"

definition str :: "string \<Rightarrow> pystr" where
  "str s = map of_char s"

text \<open>
  \<open>str.isspace\<close> on one character, which is what \<open>str.strip()\<close> removes at both ends:
  U+0009..U+000D, U+001C..U+001F, U+0020, U+0085, U+00A0, U+1680, U+2000..U+200A, U+2028,
  U+2029, U+202F, U+205F, U+3000.
\<close>

definition is_space :: "nat \<Rightarrow> bool" where
  "is_space c =
     ((9 \<le> c \<and> c \<le> 13) \<or> (28 \<le> c \<and> c \<le> 32) \<or> c = 133 \<or> c = 160 \<or> c = 5760 \<or>
      (8192 \<le> c \<and> c \<le> 8202) \<or> c = 8232 \<or> c = 8233 \<or> c = 8239 \<or> c = 8287 \<or> c = 12288)"

text \<open>
  The line boundaries of \<open>str.splitlines\<close>: LF, VT, FF, CR, U+001C, U+001D, U+001E, U+0085,
  U+2028, U+2029; CR followed by LF is one boundary.
\<close>

definition is_linebreak :: "nat \<Rightarrow> bool" where
  "is_linebreak c =
     ((10 \<le> c \<and> c \<le> 13) \<or> (28 \<le> c \<and> c \<le> 30) \<or> c = 133 \<or> c = 8232 \<or> c = 8233)"

definition strip :: "pystr \<Rightarrow> pystr" where
  "strip s = rev (dropWhile is_space (rev (dropWhile is_space s)))"

text \<open>
  \<open>s.splitlines()\<close>: \<open>cur\<close> holds the characters of the line being read. A line is closed
  at each boundary; what follows the last boundary is a line only when it is not empty.
\<close>

fun after_break :: "nat \<Rightarrow> pystr \<Rightarrow> pystr" where
  "after_break c [] = []"
| "after_break c (d # ds) = (if c = 13 \<and> d = 10 then ds else d # ds)"

function splitlines_from :: "pystr \<Rightarrow> pystr \<Rightarrow> pystr list" where
  "splitlines_from cur [] = (if cur = [] then [] else [cur])"
| "splitlines_from cur (c # cs) =
     (if is_linebreak c then cur # splitlines_from [] (after_break c cs)
      else splitlines_from (cur @ [c]) cs)"
  by pat_completeness auto
termination
proof (relation "measure (\<lambda>(cur, s). length s)")
  show "wf (measure (\<lambda>(cur, s). length s))" by simp
next
  fix cur :: pystr and c :: nat and cs :: pystr
  show "((cur @ [c], cs), (cur, c # cs)) \<in> measure (\<lambda>(cur, s). length s)" by simp
next
  fix cur :: pystr and c :: nat and cs :: pystr
  have "length (after_break c cs) \<le> length cs" by (cases cs) auto
  then show "(([], after_break c cs), (cur, c # cs)) \<in> measure (\<lambda>(cur, s). length s)"
    by simp
qed

definition splitlines :: "pystr \<Rightarrow> pystr list" where
  "splitlines s = splitlines_from [] s"

section \<open>The board-name lookup\<close>

text \<open>Lines 38-39: \<open>if len(mb_name) > 20: mb_name = mb_name[:20] + "..."\<close>.\<close>

definition shorten :: "pystr \<Rightarrow> pystr" where
  "shorten mb_name = (if length mb_name > 20 then take 20 mb_name @ str ''...'' else mb_name)"

text \<open>
  Lines 24-26 (the Windows branch, from the decoded output of the inventory command): the
  comprehension \<open>[line.strip() for line in output.splitlines() if line.strip()]\<close>, then
  \<open>lines[1]\<close> when \<open>len(lines) > 1\<close>; otherwise \<open>mb_name\<close> keeps its value.
\<close>

definition nonblank_lines :: "pystr \<Rightarrow> pystr list" where
  "nonblank_lines output = map strip (filter (\<lambda>line. strip line \<noteq> []) (splitlines output))"

definition windows_board_name :: "pystr \<Rightarrow> pystr \<Rightarrow> pystr" where
  "windows_board_name mb_name output =
     (let lines = nonblank_lines output in if length lines > 1 then lines ! 1 else mb_name)"

text \<open>
  What the command invocation and the file access raise. The first five are subclasses of
  Python's \<open>Exception\<close>. \<open>KeyboardInterrupt\<close> (the user interrupts the program while the
  command runs) and \<open>SystemExit\<close> derive from \<open>BaseException\<close> only, and a handler
  \<open>except Exception\<close> does not catch them; \<open>is_Exception e\<close> is
  \<open>isinstance(e, Exception)\<close>. An operation of the host either raises or returns.
\<close>

datatype exn =
  FileNotFoundError | PermissionError | CalledProcessError | UnicodeDecodeError | OSError
  | KeyboardInterrupt | SystemExit

fun is_Exception :: "exn \<Rightarrow> bool" where
  "is_Exception KeyboardInterrupt = False"
| "is_Exception SystemExit = False"
| "is_Exception e = True"

datatype 'a outcome = Raises exn | Returns 'a

text \<open>
  What the program asks of its host: \<open>platform.system()\<close>; the outcome of
  \<open>subprocess.check_output(cmd, shell=True).decode(errors="ignore")\<close> (decoding with
  \<open>errors="ignore"\<close> does not raise, so the outcome is an exception of the invocation or the
  decoded text); the outcome of opening and reading \<open>/sys/class/dmi/id/board_name\<close>; and
  \<open>psutil.virtual_memory().total\<close>.
\<close>

record host =
  platform_system :: pystr
  check_output :: "pystr outcome"
  board_name_file :: "pystr outcome"
  virtual_memory_total :: nat

text \<open>
  Lines 29-33 (the Linux branch): the inner handler catches \<open>FileNotFoundError\<close> only and
  leaves \<open>mb_name\<close> as it was; any other exception leaves the branch.
\<close>

definition linux_board_name :: "pystr \<Rightarrow> pystr outcome \<Rightarrow> pystr outcome" where
  "linux_board_name mb_name r =
     (case r of
        Returns content \<Rightarrow> Returns (strip content)
      | Raises e \<Rightarrow> (if e = FileNotFoundError then Returns mb_name else Raises e))"

text \<open>Lines 17-35: the value of \<open>mb_name\<close> before shortening, or the exception raised.\<close>

definition lookup :: "host \<Rightarrow> pystr outcome" where
  "lookup h =
     (let system_name = platform_system h; mb_name = str ''Unknown Board'' in
      if system_name = str ''Windows'' then
        (case check_output h of
           Raises e \<Rightarrow> Raises e
         | Returns output \<Rightarrow> Returns (windows_board_name mb_name output))
      else if system_name = str ''Linux'' then linux_board_name mb_name (board_name_file h)
      else Returns (str ''Unknown Board''))"

text \<open>Lines 17-41: the body of the \<open>try\<close>.\<close>

definition get_motherboard_name_try :: "host \<Rightarrow> pystr outcome" where
  "get_motherboard_name_try h =
     (case lookup h of
        Raises e \<Rightarrow> Raises e
      | Returns mb_name \<Rightarrow> Returns (shorten mb_name))"

text \<open>
  Lines 16-44: \<open>except Exception: return "Unknown Board"\<close> around the body. The handler
  catches the subclasses of \<open>Exception\<close>; any other exception leaves the function.
\<close>

definition get_motherboard_name :: "host \<Rightarrow> pystr outcome" where
  "get_motherboard_name h =
     (case get_motherboard_name_try h of
        Raises e \<Rightarrow> (if is_Exception e then Returns (str ''Unknown Board'') else Raises e)
      | Returns mb_name \<Rightarrow> Returns mb_name)"

text \<open>
  A host interrupts the lookup when the operation that its platform branch invokes raises
  an exception that is not a subclass of \<open>Exception\<close>.
\<close>

definition uncaught :: "pystr outcome \<Rightarrow> bool" where
  "uncaught r = (case r of Raises e \<Rightarrow> \<not> is_Exception e | Returns v \<Rightarrow> False)"

definition interrupted :: "host \<Rightarrow> bool" where
  "interrupted h =
     (if platform_system h = str ''Windows'' then uncaught (check_output h)
      else if platform_system h = str ''Linux'' then uncaught (board_name_file h)
      else False)"

section \<open>The memory size\<close>

text \<open>
  \<open>int(psutil.virtual_memory().total / (1024**3))\<close>: the true division of two Python
  integers is the exact quotient rounded to the nearest double (53 significant bits, ties
  to even), and \<open>int\<close> truncates. The divisor is a power of two, so the double is the
  total rounded to 53 significant bits, scaled by \<open>2^30\<close>. (The quotient overflows a double
  from a total of \<open>2^1054\<close> bytes on, which no host reports.)
\<close>

fun bit_length :: "nat \<Rightarrow> nat" where
  "bit_length n = (if n = 0 then 0 else Suc (bit_length (n div 2)))"

declare bit_length.simps [simp del]

definition round_half_even :: "nat \<Rightarrow> nat \<Rightarrow> nat" where
  "round_half_even n e =
     (let q = n div 2 ^ e; r = n mod 2 ^ e; half = 2 ^ e div 2 in
      if half < r \<or> (r = half \<and> 0 < e \<and> odd q) then q + 1 else q)"

definition round_53_bits :: "nat \<Rightarrow> nat" where
  "round_53_bits n = (let e = bit_length n - 53 in round_half_even n e * 2 ^ e)"

definition memory_gb :: "nat \<Rightarrow> nat" where
  "memory_gb total_bytes = round_53_bits total_bytes div 1024 ^ 3"

section \<open>The two dialogs\<close>

text \<open>
  The fields of the dialogs that the properties are about: the dark-mode flag, the style
  sheet that \<open>apply_dark_mode\<close> sets, the title, the number shown in the memory label, and
  the secondary dialog that the primary one holds.
\<close>

record MoreInfoWindow =
  dark_mode :: bool
  style_sheet :: string
  memory_info :: nat

record AboutThisMac =
  dark_mode :: bool
  style_sheet :: string
  mac_title :: pystr
  memory_label :: nat
  more_info_window :: "MoreInfoWindow option"

definition theme :: "bool \<Rightarrow> string" where
  "theme dark =
     (if dark then ''background-color: #1E1E1E; color: white;''
      else ''background-color: white; color: black;'')"

definition MoreInfoWindow_apply_dark_mode :: "MoreInfoWindow \<Rightarrow> MoreInfoWindow" where
  "MoreInfoWindow_apply_dark_mode w =
     w\<lparr>MoreInfoWindow.style_sheet := theme (MoreInfoWindow.dark_mode w)\<rparr>"

definition AboutThisMac_apply_dark_mode :: "AboutThisMac \<Rightarrow> AboutThisMac" where
  "AboutThisMac_apply_dark_mode d =
     d\<lparr>AboutThisMac.style_sheet := theme (AboutThisMac.dark_mode d)\<rparr>"

text \<open>\<open>MoreInfoWindow.__init__(self, parent, dark_mode)\<close>.\<close>

definition MoreInfoWindow_init :: "host \<Rightarrow> bool \<Rightarrow> MoreInfoWindow" where
  "MoreInfoWindow_init h dm =
     MoreInfoWindow_apply_dark_mode
       \<lparr>MoreInfoWindow.dark_mode = dm, style_sheet = [],
        memory_info = memory_gb (virtual_memory_total h)\<rparr>"

text \<open>
  \<open>MoreInfoWindow.toggle_dark_mode\<close>: the new state of the window and the value that
  \<open>dark_mode_changed.emit\<close> carries.
\<close>

definition MoreInfoWindow_toggle_dark_mode :: "MoreInfoWindow \<Rightarrow> MoreInfoWindow \<times> bool" where
  "MoreInfoWindow_toggle_dark_mode w =
     (let w' = MoreInfoWindow_apply_dark_mode
                 (w\<lparr>MoreInfoWindow.dark_mode := \<not> MoreInfoWindow.dark_mode w\<rparr>)
      in (w', MoreInfoWindow.dark_mode w'))"

text \<open>
  \<open>AboutThisMac.__init__\<close>: the flag starts as \<open>False\<close>, no style sheet is set, the title
  is what \<open>get_motherboard_name\<close> returns (an exception would leave the constructor).
\<close>

definition AboutThisMac_init :: "host \<Rightarrow> AboutThisMac outcome" where
  "AboutThisMac_init h =
     (case get_motherboard_name h of
        Raises e \<Rightarrow> Raises e
      | Returns mb_name \<Rightarrow>
          Returns \<lparr>AboutThisMac.dark_mode = False, style_sheet = [], mac_title = mb_name,
                   memory_label = memory_gb (virtual_memory_total h),
                   more_info_window = None\<rparr>)"

definition update_dark_mode :: "AboutThisMac \<Rightarrow> bool \<Rightarrow> AboutThisMac" where
  "update_dark_mode d dm = AboutThisMac_apply_dark_mode (d\<lparr>AboutThisMac.dark_mode := dm\<rparr>)"

definition AboutThisMac_toggle_dark_mode :: "AboutThisMac \<Rightarrow> AboutThisMac" where
  "AboutThisMac_toggle_dark_mode d =
     AboutThisMac_apply_dark_mode (d\<lparr>AboutThisMac.dark_mode := \<not> AboutThisMac.dark_mode d\<rparr>)"

text \<open>
  \<open>show_more_info\<close>: a new secondary dialog, built with the primary dialog's flag, whose
  signal is connected to \<open>update_dark_mode\<close>.
\<close>

definition show_more_info :: "host \<Rightarrow> AboutThisMac \<Rightarrow> AboutThisMac" where
  "show_more_info h d =
     d\<lparr>more_info_window := Some (MoreInfoWindow_init h (AboutThisMac.dark_mode d))\<rparr>"

text \<open>
  A press of the secondary dialog's button runs \<open>MoreInfoWindow.toggle_dark_mode\<close>, and the
  emitted signal runs the connected slot \<open>update_dark_mode\<close> of the primary dialog. Without
  a secondary dialog there is no button to press.
\<close>

definition press_toggle :: "AboutThisMac \<Rightarrow> AboutThisMac" where
  "press_toggle d =
     (case more_info_window d of
        None \<Rightarrow> d
      | Some w \<Rightarrow>
          (let (w', emitted) = MoreInfoWindow_toggle_dark_mode w
           in update_dark_mode (d\<lparr>more_info_window := Some w'\<rparr>) emitted))"


section \<open>Sample hosts and dialogs\<close>

text \<open>
  A Linux host whose board-name file holds a name, one whose file holds a name of 31
  characters, one whose file holds only the newline of a blank name, a Windows host whose
  command fails, one whose command is interrupted from the keyboard, the output that \<open>wmic baseboard get product\<close> prints (lines end with
  CR CR LF, the columns are padded with blanks), Windows hosts with that output and with an
  output of the header line alone, and a primary dialog in light mode.
\<close>

definition sample_host :: host where
  "sample_host =
     \<lparr>platform_system = str ''Linux'', check_output = Raises CalledProcessError,
      board_name_file = Returns (str ''X570 AORUS ELITE'' @ [10]),
      virtual_memory_total = 17179869184\<rparr>"

definition long_name_host :: host where
  "long_name_host =
     \<lparr>platform_system = str ''Linux'', check_output = Raises CalledProcessError,
      board_name_file = Returns (str ''ROG STRIX B550-F GAMING (WI-FI)'' @ [10]),
      virtual_memory_total = 17179869184\<rparr>"

definition failing_command_host :: host where
  "failing_command_host =
     \<lparr>platform_system = str ''Windows'', check_output = Raises CalledProcessError,
      board_name_file = Raises FileNotFoundError, virtual_memory_total = 17179869184\<rparr>"

definition interrupted_host :: host where
  "interrupted_host =
     \<lparr>platform_system = str ''Windows'', check_output = Raises KeyboardInterrupt,
      board_name_file = Raises FileNotFoundError, virtual_memory_total = 17179869184\<rparr>"

definition blank_board_host :: host where
  "blank_board_host =
     \<lparr>platform_system = str ''Linux'', check_output = Raises CalledProcessError,
      board_name_file = Returns [10], virtual_memory_total = 17179869184\<rparr>"

definition wmic_sample :: pystr where
  "wmic_sample =
     str ''Product'' @ [32, 32, 13, 13, 10] @ str ''X570 AORUS'' @ [32, 13, 13, 10, 13, 13, 10]"

definition wmic_host :: host where
  "wmic_host =
     \<lparr>platform_system = str ''Windows'', check_output = Returns wmic_sample,
      board_name_file = Raises FileNotFoundError, virtual_memory_total = 17179869184\<rparr>"

definition header_only_host :: host where
  "header_only_host =
     \<lparr>platform_system = str ''Windows'', check_output = Returns (str ''Product'' @ [13, 10]),
      board_name_file = Raises FileNotFoundError, virtual_memory_total = 17179869184\<rparr>"

definition sample_dialog :: AboutThisMac where
  "sample_dialog =
     \<lparr>AboutThisMac.dark_mode = False, style_sheet = [], mac_title = str ''X570 AORUS ELITE'',
      memory_label = 16, more_info_window = None\<rparr>"

text \<open>
  The two flags agree: a secondary dialog is open and its flag is the primary dialog's.
\<close>

definition flags_agree :: "AboutThisMac \<Rightarrow> bool" where
  "flags_agree d =
     (case more_info_window d of
        None \<Rightarrow> False
      | Some w \<Rightarrow> MoreInfoWindow.dark_mode w = AboutThisMac.dark_mode d)"

section \<open>Helper lemmas\<close>

subsection \<open>The lookup\<close>

lemma windows_not_linux: "str ''Windows'' \<noteq> str ''Linux''"
  by (simp add: str_def)

lemma lookup_raises:
  "lookup h = Raises e \<Longrightarrow>
   (platform_system h = str ''Windows'' \<and> check_output h = Raises e) \<or>
   (platform_system h = str ''Linux'' \<and> board_name_file h = Raises e)"
  by (auto simp: lookup_def Let_def linux_board_name_def split: if_splits outcome.splits)

lemma lookup_raises_caught: "\<not> interrupted h \<Longrightarrow> lookup h = Raises e \<Longrightarrow> is_Exception e"
  using lookup_raises [of h e] windows_not_linux
  by (auto simp: interrupted_def uncaught_def)

lemma interrupted_raises: "interrupted h \<Longrightarrow> \<exists>e. \<not> is_Exception e \<and> lookup h = Raises e"
  by (auto simp: interrupted_def uncaught_def lookup_def Let_def linux_board_name_def
      split: if_splits outcome.splits)

lemma get_motherboard_name_raises:
  "get_motherboard_name h = Raises e \<Longrightarrow> \<not> is_Exception e \<and> lookup h = Raises e"
  by (auto simp: get_motherboard_name_def get_motherboard_name_try_def
      split: outcome.splits if_splits)

lemma get_motherboard_name_total:
  "\<not> interrupted h \<Longrightarrow> \<exists>s. get_motherboard_name h = Returns s"
proof (cases "get_motherboard_name h")
  case (Raises e)
  assume "\<not> interrupted h"
  then show ?thesis
    using get_motherboard_name_raises [OF Raises] lookup_raises_caught [of h e] by blast
next
  case (Returns s)
  then show ?thesis by simp
qed

lemma length_shorten_le: "length (shorten s) \<le> 23"
  by (simp add: shorten_def str_def)

lemma length_fallback: "length (str ''Unknown Board'') = 13"
  by (simp add: str_def)

lemma get_motherboard_name_bounded: "get_motherboard_name h = Returns s \<Longrightarrow> length s \<le> 23"
  by (auto simp: get_motherboard_name_def get_motherboard_name_try_def length_shorten_le
      length_fallback split: outcome.splits if_splits)

lemma shorten_fallback: "shorten (str ''Unknown Board'') = str ''Unknown Board''"
  by (simp add: shorten_def str_def)

lemma shorten_nonempty: "s \<noteq> [] \<Longrightarrow> shorten s \<noteq> []"
  by (simp add: shorten_def)

lemma fallback_nonempty: "str ''Unknown Board'' \<noteq> []"
  by (simp add: str_def)

lemma lookup_windows:
  "platform_system h = str ''Windows'' \<Longrightarrow> check_output h = Returns out \<Longrightarrow>
   lookup h = Returns (windows_board_name (str ''Unknown Board'') out)"
  by (simp add: lookup_def)

lemma windows_board_name_few:
  "length (filter (\<lambda>l. strip l \<noteq> []) (splitlines out)) < 2 \<Longrightarrow>
   windows_board_name fb out = fb"
  by (simp add: windows_board_name_def nonblank_lines_def)

lemma windows_board_name_second:
  assumes split: "splitlines out = pre @ l # post"
    and one: "length (filter (\<lambda>x. strip x \<noteq> []) pre) = 1"
    and nonblank: "strip l \<noteq> []"
  shows "windows_board_name fb out = strip l"
proof -
  obtain a where a: "filter (\<lambda>x. strip x \<noteq> []) pre = [a]"
    using one by (cases "filter (\<lambda>x. strip x \<noteq> []) pre") auto
  have "nonblank_lines out =
      strip a # strip l # map strip (filter (\<lambda>x. strip x \<noteq> []) post)"
    using nonblank by (simp add: nonblank_lines_def split a)
  then show ?thesis by (simp add: windows_board_name_def)
qed

text \<open>
  Every failure but one ends in the fallback constant, an exception when it is a subclass
  of \<open>Exception\<close>.
\<close>

lemma fallback_on_exception:
  "lookup h = Raises e \<Longrightarrow> is_Exception e \<Longrightarrow>
   get_motherboard_name h = Returns (str ''Unknown Board'')"
  by (simp add: get_motherboard_name_def get_motherboard_name_try_def)

lemma fallback_kept:
  "lookup h = Returns (str ''Unknown Board'') \<Longrightarrow>
   get_motherboard_name h = Returns (str ''Unknown Board'')"
  by (simp add: get_motherboard_name_def get_motherboard_name_try_def shorten_fallback)

lemma fallback_command_failure:
  "platform_system h = str ''Windows'' \<Longrightarrow> check_output h = Raises e \<Longrightarrow> is_Exception e \<Longrightarrow>
   get_motherboard_name h = Returns (str ''Unknown Board'')"
  by (rule fallback_on_exception [of h e]) (simp_all add: lookup_def)

lemma fallback_few_lines:
  "platform_system h = str ''Windows'' \<Longrightarrow> check_output h = Returns out \<Longrightarrow>
   length (filter (\<lambda>l. strip l \<noteq> []) (splitlines out)) < 2 \<Longrightarrow>
   get_motherboard_name h = Returns (str ''Unknown Board'')"
  by (rule fallback_kept) (simp add: lookup_windows windows_board_name_few)

lemma fallback_file_error:
  assumes "platform_system h = str ''Linux''" and "board_name_file h = Raises e"
    and caught: "is_Exception e"
  shows "get_motherboard_name h = Returns (str ''Unknown Board'')"
proof (cases "e = FileNotFoundError")
  case True
  then have "lookup h = Returns (str ''Unknown Board'')"
    using assms by (simp add: lookup_def linux_board_name_def str_def)
  then show ?thesis by (rule fallback_kept)
next
  case False
  then have "lookup h = Raises e"
    using assms by (simp add: lookup_def linux_board_name_def str_def)
  then show ?thesis using caught by (rule fallback_on_exception)
qed

lemma fallback_other_platform:
  "platform_system h \<noteq> str ''Windows'' \<Longrightarrow> platform_system h \<noteq> str ''Linux'' \<Longrightarrow>
   get_motherboard_name h = Returns (str ''Unknown Board'')"
  by (rule fallback_kept) (simp add: lookup_def)

text \<open>
  The name returned is empty only on a Linux host whose board-name file holds nothing but
  white space.
\<close>

lemma nonblank_lines_nonempty: "l \<in> set (nonblank_lines out) \<Longrightarrow> l \<noteq> []"
  by (auto simp: nonblank_lines_def)

lemma windows_board_name_nonempty: "fb \<noteq> [] \<Longrightarrow> windows_board_name fb out \<noteq> []"
  using nonblank_lines_nonempty [of "nonblank_lines out ! 1" out]
  by (auto simp: windows_board_name_def Let_def)

lemma lookup_nonempty:
  assumes "lookup h = Returns s"
    and "\<not> (platform_system h = str ''Linux'' \<and>
             (\<exists>c. board_name_file h = Returns c \<and> strip c = []))"
  shows "s \<noteq> []"
proof (cases "platform_system h = str ''Windows''")
  case True
  then show ?thesis
    using assms(1) windows_board_name_nonempty [OF fallback_nonempty]
    by (auto simp: lookup_def split: outcome.splits)
next
  case notwin: False
  show ?thesis
  proof (cases "platform_system h = str ''Linux''")
    case True
    then show ?thesis
      using assms notwin fallback_nonempty
      by (auto simp: lookup_def linux_board_name_def split: outcome.splits if_splits)
  next
    case False
    then show ?thesis
      using assms(1) notwin fallback_nonempty by (auto simp: lookup_def)
  qed
qed

lemma title_nonempty_unless_blank_file:
  assumes filled: "\<not> (platform_system h = str ''Linux'' \<and>
             (\<exists>c. board_name_file h = Returns c \<and> strip c = []))"
    and name: "get_motherboard_name h = Returns t"
  shows "t \<noteq> []"
proof (cases "lookup h")
  case (Raises e)
  then show ?thesis
    using name fallback_nonempty
    by (auto simp: get_motherboard_name_def get_motherboard_name_try_def split: if_splits)
next
  case (Returns s)
  then have "s \<noteq> []" using filled by (rule lookup_nonempty)
  then have "shorten s \<noteq> []" by (rule shorten_nonempty)
  then show ?thesis
    using Returns name by (simp add: get_motherboard_name_def get_motherboard_name_try_def)
qed

subsection \<open>The sample output\<close>

lemma splitlines_wmic_sample:
  "splitlines wmic_sample =
     [str ''Product'' @ [32, 32], [], str ''X570 AORUS'' @ [32], [], [], []]"
  by (simp add: wmic_sample_def splitlines_def str_def is_linebreak_def)

lemma strip_samples:
  "strip (str ''Product'' @ [32, 32]) = str ''Product''"
  "strip (str ''X570 AORUS'' @ [32]) = str ''X570 AORUS''"
  "strip [] = []"
  by (simp_all add: strip_def str_def is_space_def)

lemma splitlines_header_only: "splitlines (str ''Product'' @ [13, 10]) = [str ''Product'']"
  by (simp add: splitlines_def str_def is_linebreak_def)

subsection \<open>The memory size\<close>

text \<open>A total below \<open>2^53\<close> has at most 53 bits and is a double as it is.\<close>

lemma bit_length_le: "n < 2 ^ k \<Longrightarrow> bit_length n \<le> k"
proof (induction n arbitrary: k rule: bit_length.induct)
  case (1 n)
  show ?case
  proof (cases "n = 0")
    case True
    then show ?thesis by (simp add: bit_length.simps)
  next
    case False
    then obtain j where k: "k = Suc j" using "1.prems" by (cases k) auto
    have "n div 2 < 2 ^ j" using "1.prems" k by auto
    then have "bit_length (n div 2) \<le> j" using "1.IH" False by blast
    then show ?thesis using False k by (subst bit_length.simps) simp
  qed
qed

lemma round_53_bits_exact: "n < 2 ^ 53 \<Longrightarrow> round_53_bits n = n"
  using bit_length_le [of n 53] by (simp add: round_53_bits_def round_half_even_def)

lemma memory_gb_small: "n < 2 ^ 53 \<Longrightarrow> memory_gb n = n div 2 ^ 30"
proof -
  assume small: "n < 2 ^ 53"
  have pow: "(1024::nat) ^ 3 = 2 ^ 30" by simp
  show ?thesis unfolding memory_gb_def pow using round_53_bits_exact [OF small] by simp
qed

lemma bit_length_eq: "2 ^ k \<le> n \<Longrightarrow> n < 2 ^ Suc k \<Longrightarrow> bit_length n = Suc k"
proof (induction k arbitrary: n)
  case 0
  then have "n = 1" by simp
  then show ?case by (simp add: bit_length.simps)
next
  case (Suc k)
  have "(0::nat) < 2 ^ Suc k" by simp
  then have pos: "n \<noteq> 0" using Suc.prems(1) by linarith
  have lo: "2 ^ k \<le> n div 2" using Suc.prems(1) by auto
  have hi: "n div 2 < 2 ^ Suc k" using Suc.prems(2) by auto
  have "bit_length (n div 2) = Suc k" using Suc.IH [OF lo hi] .
  then show ?case using pos by (subst bit_length.simps) simp
qed

text \<open>
  Beyond 53 bits the double is rounded, and the size shown can exceed the truncated
  quotient: one byte less than \<open>2^54\<close> bytes is shown as \<open>2^24\<close> gigabytes.
\<close>

lemma memory_gb_rounds_up_beyond_53_bits:
  "memory_gb 18014398509481983 = 16777216 \<and> 18014398509481983 div 2 ^ 30 = (16777215::nat)"
proof -
  have "bit_length 18014398509481983 = Suc 53"
    by (rule bit_length_eq) simp_all
  then have e: "bit_length 18014398509481983 - 53 = 1" by simp
  have "round_53_bits 18014398509481983 = 18014398509481984"
    unfolding round_53_bits_def e by (simp add: round_half_even_def)
  then show ?thesis by (simp add: memory_gb_def)
qed

subsection \<open>The dark-mode flags\<close>

lemma flags_agree_show_more_info: "flags_agree (show_more_info h d)"
  by (simp add: flags_agree_def show_more_info_def MoreInfoWindow_init_def
      MoreInfoWindow_apply_dark_mode_def)

lemma dark_mode_show_more_info:
  "AboutThisMac.dark_mode (show_more_info h d) = AboutThisMac.dark_mode d"
  by (simp add: show_more_info_def)

lemma press_toggle_flags_agree:
  "flags_agree d \<Longrightarrow>
   flags_agree (press_toggle d) \<and>
   AboutThisMac.dark_mode (press_toggle d) = (\<not> AboutThisMac.dark_mode d)"
  by (auto simp: flags_agree_def press_toggle_def MoreInfoWindow_toggle_dark_mode_def
      update_dark_mode_def AboutThisMac_apply_dark_mode_def MoreInfoWindow_apply_dark_mode_def
      Let_def split: option.splits)

lemma press_toggle_funpow:
  "flags_agree d \<Longrightarrow>
   flags_agree ((press_toggle ^^ n) d) \<and>
   AboutThisMac.dark_mode ((press_toggle ^^ n) d) =
     (if even n then AboutThisMac.dark_mode d else \<not> AboutThisMac.dark_mode d)"
proof (induction n)
  case 0
  then show ?case by simp
next
  case (Suc n)
  then show ?case using press_toggle_flags_agree [of "(press_toggle ^^ n) d"] by simp
qed

section \<open>The claims\<close>

text \<open>
  C1. The shortening step returns a board name of at most 20 characters unchanged; a longer
  one becomes its first 20 characters followed by \<open>...\<close>, 23 characters in all.
\<close>

theorem shorten_spec:
  "(length s \<le> 20 \<longrightarrow> shorten s = s) \<and>
   (length s > 20 \<longrightarrow> shorten s = take 20 s @ str ''...'' \<and> length (shorten s) = 23)"
  by (simp add: shorten_def str_def)

theorem shorten_spec_witness:
  "length (str ''X570 AORUS ELITE'') \<le> 20 \<and>
   shorten (str ''X570 AORUS ELITE'') = str ''X570 AORUS ELITE'' \<and>
   length (str ''ROG STRIX B550-F GAMING (WI-FI)'') > 20 \<and>
   shorten (str ''ROG STRIX B550-F GAMING (WI-FI)'') = str ''ROG STRIX B550-F GAM...'' \<and>
   length (shorten (str ''ROG STRIX B550-F GAMING (WI-FI)'')) = 23"
  using shorten_spec [of "str ''X570 AORUS ELITE''"]
    shorten_spec [of "str ''ROG STRIX B550-F GAMING (WI-FI)''"]
  by (simp add: str_def)

text \<open>
  C2. When the lookup raises an error or returns no usable data, \<open>get_motherboard_name\<close>
  is to return the fallback constant \<open>Unknown Board\<close>. On a Linux host whose board-name
  file holds only a newline the file content strips to nothing, and the function returns
  the empty string, not the fallback constant.
\<close>

theorem blank_board_name_not_fallback:
  "strip [10] = [] \<and>
   get_motherboard_name blank_board_host = Returns [] \<and>
   get_motherboard_name blank_board_host \<noteq> Returns (str ''Unknown Board'')"
  by (simp add: get_motherboard_name_def get_motherboard_name_try_def lookup_def
      linux_board_name_def blank_board_host_def strip_def is_space_def shorten_def str_def)

text \<open>
  C3. The memory size shown is the total physical memory in bytes divided by \<open>2^30\<close> and
  truncated to a whole number of gigabytes (the largest whole number of gigabytes that the
  total holds), for every total below \<open>2^53\<close> bytes, where the floating-point quotient is
  exact.
\<close>

theorem memory_gb_truncates:
  "total_bytes < 2 ^ 53 \<Longrightarrow>
   memory_gb total_bytes = total_bytes div 2 ^ 30 \<and>
   memory_gb total_bytes * 2 ^ 30 \<le> total_bytes \<and>
   total_bytes < (memory_gb total_bytes + 1) * 2 ^ 30"
proof -
  assume small: "total_bytes < 2 ^ 53"
  have eq: "memory_gb total_bytes = total_bytes div 2 ^ 30"
    by (rule memory_gb_small [OF small])
  have lo: "total_bytes div 2 ^ 30 * 2 ^ 30 \<le> total_bytes"
    by (rule div_times_less_eq_dividend)
  have hi: "total_bytes < (total_bytes div 2 ^ 30 + 1) * 2 ^ 30"
    using dividend_less_div_times [of "2 ^ 30" total_bytes] by simp
  show ?thesis using eq lo hi by simp
qed

theorem memory_gb_truncates_witness:
  "(17179869183::nat) < 2 ^ 53 \<and> memory_gb 17179869183 = 15 \<and>
   memory_gb 17179869183 * 2 ^ 30 \<le> 17179869183 \<and>
   (17179869183::nat) < (memory_gb 17179869183 + 1) * 2 ^ 30"
proof -
  have small: "(17179869183::nat) < 2 ^ 53" by simp
  have "memory_gb 17179869183 = 17179869183 div 2 ^ 30"
    using memory_gb_truncates [OF small] by blast
  then have v: "memory_gb 17179869183 = 15" by simp
  show ?thesis unfolding v by simp
qed

text \<open>
  The size shown is not the nearest whole number of gigabytes: for one byte less than
  2 GiB the dialogs show 1, which is further than half a gigabyte from the total.
\<close>

theorem memory_gb_not_nearest:
  "memory_gb 2147483647 = 1 \<and>
   \<not> 2 * \<bar>int (memory_gb 2147483647) * 2 ^ 30 - 2147483647\<bar> \<le> (2 ^ 30 :: int)"
proof -
  have "memory_gb 2147483647 = 2147483647 div 2 ^ 30"
    by (rule memory_gb_small) simp
  then have v: "memory_gb 2147483647 = 1" by simp
  show ?thesis unfolding v by simp
qed

text \<open>
  C4. After the secondary dialog is opened from a primary dialog with any flag value,
  \<open>n\<close> presses of the secondary dialog's toggle button leave the primary dialog's flag at
  its original value when \<open>n\<close> is even, and at the negation of it when \<open>n\<close> is odd.
\<close>

theorem toggle_parity:
  "(even n \<longrightarrow>
      AboutThisMac.dark_mode ((press_toggle ^^ n) (show_more_info h d)) =
        AboutThisMac.dark_mode d) \<and>
   (odd n \<longrightarrow>
      AboutThisMac.dark_mode ((press_toggle ^^ n) (show_more_info h d)) =
        (\<not> AboutThisMac.dark_mode d))"
  using press_toggle_funpow [OF flags_agree_show_more_info, of n h d]
  by (simp add: dark_mode_show_more_info)

theorem toggle_parity_witness:
  "even (2::nat) \<and>
   AboutThisMac.dark_mode ((press_toggle ^^ 2) (show_more_info sample_host sample_dialog)) =
     AboutThisMac.dark_mode sample_dialog \<and>
   odd (3::nat) \<and>
   AboutThisMac.dark_mode ((press_toggle ^^ 3) (show_more_info sample_host sample_dialog)) =
     (\<not> AboutThisMac.dark_mode sample_dialog)"
  using toggle_parity [of 2 sample_host sample_dialog]
    toggle_parity [of 3 sample_host sample_dialog]
  by simp

text \<open>
  C5. On the Windows branch, the board name before shortening is the second of the
  output's non-blank lines, stripped of surrounding white space: the line that follows
  exactly one non-blank line and is not blank itself. When the output has fewer than two
  non-blank lines, the name is the fallback constant.
\<close>

theorem windows_second_nonblank_line:
  assumes win: "platform_system h = str ''Windows''"
    and out: "check_output h = Returns out"
  shows "(length (filter (\<lambda>l. strip l \<noteq> []) (splitlines out)) < 2 \<longrightarrow>
            lookup h = Returns (str ''Unknown Board'')) \<and>
         (\<forall>pre l post.
            splitlines out = pre @ l # post \<and>
            length (filter (\<lambda>x. strip x \<noteq> []) pre) = 1 \<and> strip l \<noteq> [] \<longrightarrow>
            lookup h = Returns (strip l))"
  using lookup_windows [OF win out] windows_board_name_few windows_board_name_second
  by auto

theorem windows_second_nonblank_line_witness:
  "lookup header_only_host = Returns (str ''Unknown Board'') \<and>
   lookup wmic_host = Returns (str ''X570 AORUS'')"
proof -
  have win1: "platform_system header_only_host = str ''Windows''"
    and out1: "check_output header_only_host = Returns (str ''Product'' @ [13, 10])"
    by (simp_all add: header_only_host_def)
  have few: "length (filter (\<lambda>l. strip l \<noteq> []) (splitlines (str ''Product'' @ [13, 10]))) < 2"
    unfolding splitlines_header_only by simp
  have a: "lookup header_only_host = Returns (str ''Unknown Board'')"
    using windows_second_nonblank_line [OF win1 out1] few by blast
  have win2: "platform_system wmic_host = str ''Windows''"
    and out2: "check_output wmic_host = Returns wmic_sample"
    by (simp_all add: wmic_host_def)
  have split: "splitlines wmic_sample =
      [str ''Product'' @ [32, 32], []] @ (str ''X570 AORUS'' @ [32]) # [[], [], []]"
    unfolding splitlines_wmic_sample by simp
  have one: "length (filter (\<lambda>x. strip x \<noteq> []) [str ''Product'' @ [32, 32], []]) = 1"
    by (simp add: strip_samples) (simp add: str_def)
  have nonblank: "strip (str ''X570 AORUS'' @ [32]) \<noteq> []"
    by (simp add: strip_samples) (simp add: str_def)
  have "lookup wmic_host = Returns (strip (str ''X570 AORUS'' @ [32]))"
    using windows_second_nonblank_line [OF win2 out2] split one nonblank by blast
  then have b: "lookup wmic_host = Returns (str ''X570 AORUS'')"
    by (simp add: strip_samples)
  show ?thesis using a b by simp
qed

text \<open>
  The name is not the second line of the output: in what \<open>wmic\<close> prints, the second
  line is empty, and the name found is the third line without its padding.
\<close>

theorem second_line_counterexample:
  "check_output wmic_host = Returns wmic_sample \<and>
   1 < length (splitlines wmic_sample) \<and> splitlines wmic_sample ! 1 = [] \<and>
   lookup wmic_host = Returns (str ''X570 AORUS'') \<and>
   lookup wmic_host \<noteq> Returns (splitlines wmic_sample ! 1)"
proof -
  have name: "windows_board_name (str ''Unknown Board'') wmic_sample = str ''X570 AORUS''"
    unfolding windows_board_name_def nonblank_lines_def splitlines_wmic_sample
    by (simp add: strip_samples) (simp add: str_def)
  have look: "lookup wmic_host = Returns (str ''X570 AORUS'')"
    by (simp add: lookup_def wmic_host_def name)
  show ?thesis unfolding look by (simp add: wmic_host_def splitlines_wmic_sample) (simp add: str_def)
qed

text \<open>
  C6. The board-name text shown as the primary dialog's title is to be a non-empty string.
  On a Linux host whose board-name file holds only a newline, the primary dialog is built
  with an empty title.
\<close>

theorem blank_board_name_empty_title:
  "AboutThisMac_init blank_board_host =
     Returns \<lparr>AboutThisMac.dark_mode = False, style_sheet = [], mac_title = [],
              memory_label = 16, more_info_window = None\<rparr>"
proof -
  have name: "get_motherboard_name blank_board_host = Returns []"
    by (simp add: get_motherboard_name_def get_motherboard_name_try_def lookup_def
        linux_board_name_def blank_board_host_def strip_def is_space_def shorten_def str_def)
  have "memory_gb 17179869184 = 17179869184 div 2 ^ 30"
    by (rule memory_gb_small) simp
  then have mem: "memory_gb (virtual_memory_total blank_board_host) = 16"
    by (simp add: blank_board_host_def)
  show ?thesis by (simp add: AboutThisMac_init_def name mem)
qed

text \<open>
  C7. After a toggle on the secondary dialog, the value emitted is the secondary dialog's
  new flag, the negation of the old one, and the primary dialog stores it: the two flags
  are equal, and so are the two style sheets.
\<close>

theorem toggle_synchronises:
  assumes "more_info_window d = Some w"
  shows "\<exists>w'. more_info_window (press_toggle d) = Some w' \<and>
           MoreInfoWindow_toggle_dark_mode w = (w', MoreInfoWindow.dark_mode w') \<and>
           MoreInfoWindow.dark_mode w' = (\<not> MoreInfoWindow.dark_mode w) \<and>
           AboutThisMac.dark_mode (press_toggle d) = MoreInfoWindow.dark_mode w' \<and>
           AboutThisMac.style_sheet (press_toggle d) = MoreInfoWindow.style_sheet w'"
  using assms
  by (simp add: press_toggle_def MoreInfoWindow_toggle_dark_mode_def update_dark_mode_def
      AboutThisMac_apply_dark_mode_def MoreInfoWindow_apply_dark_mode_def Let_def)

theorem toggle_synchronises_witness:
  "more_info_window (show_more_info sample_host sample_dialog) =
     Some (MoreInfoWindow_init sample_host False) \<and>
   (\<exists>w'. more_info_window (press_toggle (show_more_info sample_host sample_dialog)) = Some w' \<and>
      MoreInfoWindow_toggle_dark_mode (MoreInfoWindow_init sample_host False) =
        (w', MoreInfoWindow.dark_mode w') \<and>
      MoreInfoWindow.dark_mode w' = (\<not> MoreInfoWindow.dark_mode (MoreInfoWindow_init sample_host False)) \<and>
      AboutThisMac.dark_mode (press_toggle (show_more_info sample_host sample_dialog)) =
        MoreInfoWindow.dark_mode w' \<and>
      AboutThisMac.style_sheet (press_toggle (show_more_info sample_host sample_dialog)) =
        MoreInfoWindow.style_sheet w')"
proof -
  have opened: "more_info_window (show_more_info sample_host sample_dialog) =
      Some (MoreInfoWindow_init sample_host False)"
    by (simp add: show_more_info_def sample_dialog_def)
  show ?thesis using opened toggle_synchronises [OF opened] by simp
qed

text \<open>
  C8. \<open>get_motherboard_name\<close> returns a string for every platform identifier, every
  outcome of the command and every outcome of the file access in which the operation
  invoked returns or raises a subclass of \<open>Exception\<close>. An exception that is not a
  subclass of \<open>Exception\<close> leaves the function, and nothing else does.
\<close>

theorem get_motherboard_name_catches_exceptions:
  "(\<not> interrupted h \<longrightarrow> (\<exists>s. get_motherboard_name h = Returns s)) \<and>
   (interrupted h \<longrightarrow> (\<exists>e. \<not> is_Exception e \<and> get_motherboard_name h = Raises e)) \<and>
   (\<forall>e. get_motherboard_name h = Raises e \<longrightarrow> \<not> is_Exception e)"
proof (intro conjI impI allI)
  assume "\<not> interrupted h"
  then show "\<exists>s. get_motherboard_name h = Returns s" by (rule get_motherboard_name_total)
next
  assume "interrupted h"
  then obtain e where "\<not> is_Exception e" and "lookup h = Raises e"
    using interrupted_raises by blast
  then have "\<not> is_Exception e \<and> get_motherboard_name h = Raises e"
    by (simp add: get_motherboard_name_def get_motherboard_name_try_def)
  then show "\<exists>e. \<not> is_Exception e \<and> get_motherboard_name h = Raises e" by blast
next
  fix e
  assume "get_motherboard_name h = Raises e"
  then show "\<not> is_Exception e" using get_motherboard_name_raises by blast
qed

theorem get_motherboard_name_catches_exceptions_witness:
  "\<not> interrupted failing_command_host \<and>
   (\<exists>s. get_motherboard_name failing_command_host = Returns s) \<and>
   interrupted interrupted_host \<and>
   (\<exists>e. \<not> is_Exception e \<and> get_motherboard_name interrupted_host = Raises e) \<and>
   get_motherboard_name interrupted_host = Raises KeyboardInterrupt \<and>
   \<not> is_Exception KeyboardInterrupt"
proof -
  have calm: "\<not> interrupted failing_command_host"
    by (simp add: interrupted_def uncaught_def failing_command_host_def)
  have cut: "interrupted interrupted_host"
    by (simp add: interrupted_def uncaught_def interrupted_host_def)
  have raised: "get_motherboard_name interrupted_host = Raises KeyboardInterrupt"
    by (simp add: get_motherboard_name_def get_motherboard_name_try_def lookup_def
        interrupted_host_def)
  show ?thesis
    using calm cut raised
      get_motherboard_name_catches_exceptions [of failing_command_host]
      get_motherboard_name_catches_exceptions [of interrupted_host]
    by blast
qed

text \<open>
  The function does not return for every outcome: when the command is interrupted from
  the keyboard, \<open>KeyboardInterrupt\<close> passes the handler and no string is returned.
\<close>

theorem keyboard_interrupt_propagates:
  "check_output interrupted_host = Raises KeyboardInterrupt \<and>
   get_motherboard_name interrupted_host = Raises KeyboardInterrupt \<and>
   get_motherboard_name interrupted_host \<noteq> Returns (str ''Unknown Board'')"
  by (simp add: get_motherboard_name_def get_motherboard_name_try_def lookup_def
      interrupted_host_def)

text \<open>
  C9. A string returned by \<open>get_motherboard_name\<close> has at most 23 characters, for every
  host; and a string is returned unless the lookup is interrupted.
\<close>

theorem get_motherboard_name_length:
  "(\<forall>s. get_motherboard_name h = Returns s \<longrightarrow> length s \<le> 23) \<and>
   (\<not> interrupted h \<longrightarrow> (\<exists>s. get_motherboard_name h = Returns s \<and> length s \<le> 23))"
  using get_motherboard_name_bounded [of h] get_motherboard_name_total [of h] by blast

theorem get_motherboard_name_length_witness:
  "\<not> interrupted long_name_host \<and>
   get_motherboard_name long_name_host = Returns (str ''ROG STRIX B550-F GAM...'') \<and>
   length (str ''ROG STRIX B550-F GAM...'') \<le> 23 \<and>
   (\<exists>s. get_motherboard_name long_name_host = Returns s \<and> length s \<le> 23)"
proof -
  have calm: "\<not> interrupted long_name_host"
    by (simp add: interrupted_def uncaught_def long_name_host_def str_def)
  have name: "get_motherboard_name long_name_host = Returns (str ''ROG STRIX B550-F GAM...'')"
    by (simp add: get_motherboard_name_def get_motherboard_name_try_def lookup_def
        linux_board_name_def long_name_host_def strip_def is_space_def shorten_def str_def)
  show ?thesis
    using calm name get_motherboard_name_length [of long_name_host] by blast
qed

text \<open>
  C10. The primary dialog is built with its dark-mode flag \<open>False\<close> (and it is built
  unless the lookup is interrupted), and the secondary dialog that \<open>show_more_info\<close>
  builds has the primary dialog's current flag and the style sheet of that flag.
\<close>

theorem initial_flags:
  "(\<forall>d. AboutThisMac_init h = Returns d \<longrightarrow> AboutThisMac.dark_mode d = False) \<and>
   (\<not> interrupted h \<longrightarrow>
      (\<exists>d. AboutThisMac_init h = Returns d \<and> AboutThisMac.dark_mode d = False)) \<and>
   (\<exists>w. more_info_window (show_more_info h d0) = Some w \<and>
      MoreInfoWindow.dark_mode w = AboutThisMac.dark_mode d0 \<and>
      MoreInfoWindow.style_sheet w = theme (AboutThisMac.dark_mode d0))"
proof -
  have built: "\<forall>d. AboutThisMac_init h = Returns d \<longrightarrow> AboutThisMac.dark_mode d = False"
    by (auto simp: AboutThisMac_init_def split: outcome.splits)
  have total: "\<not> interrupted h \<longrightarrow>
      (\<exists>d. AboutThisMac_init h = Returns d \<and> AboutThisMac.dark_mode d = False)"
  proof
    assume "\<not> interrupted h"
    then obtain s where "get_motherboard_name h = Returns s"
      using get_motherboard_name_total by blast
    then show "\<exists>d. AboutThisMac_init h = Returns d \<and> AboutThisMac.dark_mode d = False"
      by (simp add: AboutThisMac_init_def)
  qed
  have opened: "\<exists>w. more_info_window (show_more_info h d0) = Some w \<and>
      MoreInfoWindow.dark_mode w = AboutThisMac.dark_mode d0 \<and>
      MoreInfoWindow.style_sheet w = theme (AboutThisMac.dark_mode d0)"
    by (simp add: show_more_info_def MoreInfoWindow_init_def MoreInfoWindow_apply_dark_mode_def)
  show ?thesis using built total opened by blast
qed

theorem initial_flags_witness:
  "\<not> interrupted sample_host \<and>
   AboutThisMac_init sample_host = Returns sample_dialog \<and>
   AboutThisMac.dark_mode sample_dialog = False \<and>
   (\<exists>d. AboutThisMac_init sample_host = Returns d \<and> AboutThisMac.dark_mode d = False)"
proof -
  have calm: "\<not> interrupted sample_host"
    by (simp add: interrupted_def uncaught_def sample_host_def str_def)
  have name: "get_motherboard_name sample_host = Returns (str ''X570 AORUS ELITE'')"
    by (simp add: get_motherboard_name_def get_motherboard_name_try_def lookup_def
        linux_board_name_def sample_host_def strip_def is_space_def shorten_def str_def)
  have "memory_gb 17179869184 = 17179869184 div 2 ^ 30"
    by (rule memory_gb_small) simp
  then have mem: "memory_gb (virtual_memory_total sample_host) = 16"
    by (simp add: sample_host_def)
  have built: "AboutThisMac_init sample_host = Returns sample_dialog"
    by (simp add: AboutThisMac_init_def name mem sample_dialog_def)
  show ?thesis
    using calm built initial_flags [of sample_host] by blast
qed

end
